theory Spec2Isabelle
  imports Main "HOL-Library.Multiset"
begin

section \<open>Data model\<close>

text \<open>
  The server actions of \<^verbatim>\<open>post.action\<close> (\<^verbatim>\<open>createPost\<close>, \<^verbatim>\<open>getPosts\<close>,
  \<^verbatim>\<open>toggleLike\<close>, \<^verbatim>\<open>createComment\<close>, \<^verbatim>\<open>deletePost\<close>) read and write four
  relations through the Prisma client. Rows carry the fields the source reads or
  writes. Identifiers are strings, as in the source (\<^verbatim>\<open>postId: string\<close>); a
  \<^verbatim>\<open>createdAt\<close> date is its number of milliseconds, an integer.
\<close>

type_synonym ident = string
type_synonym time = int

record user =
  user_id :: ident
  user_name :: "string option"
  user_image :: "string option"
  user_username :: string

record post =
  post_id :: ident
  post_content :: string
  post_image :: string
  post_createdAt :: time
  post_authorId :: ident

record comment =
  comment_id :: ident
  comment_content :: string
  comment_authorId :: ident
  comment_postId :: ident
  comment_createdAt :: time

record like =
  like_userId :: ident
  like_postId :: ident

datatype notification_type = LIKE | COMMENT

record notification =
  notification_id :: ident
  notification_type :: notification_type
  notification_userId :: ident
  notification_creatorId :: ident
  notification_postId :: ident
  notification_commentId :: "ident option"

record store =
  users :: "user list"
  posts :: "post list"
  comments :: "comment list"
  likes :: "like list"
  notifications :: "notification list"

section \<open>Effects: promises, exceptions, the console and the cache\<close>

text \<open>
  A JavaScript \<^verbatim>\<open>throw\<close> carries any value; \<^verbatim>\<open>createPost\<close> tells an
  \<^verbatim>\<open>Error\<close> (with its message) from every other value.
\<close>

datatype thrown = Error string | NonError

datatype 'a outcome = Return 'a | Throw thrown

datatype log_entry = ConsoleError string thrown | ConsoleLog string thrown

text \<open>
  What an action can change: the database, the console, and the list of paths handed
  to \<^verbatim>\<open>revalidatePath\<close>.
\<close>

record world =
  db :: store
  console :: "log_entry list"
  revalidated :: "string list"

type_synonym 'a action = "world \<Rightarrow> 'a outcome \<times> world"

definition resolve :: "'a \<Rightarrow> 'a action" where
  "resolve v w = (Return v, w)"

definition throw :: "thrown \<Rightarrow> 'a action" where
  "throw x w = (Throw x, w)"

text \<open>\<^verbatim>\<open>const v = await m; k(v)\<close>: a rejected promise skips the rest, and the
  world keeps what \<open>m\<close> did before it failed.\<close>

definition await :: "'a action \<Rightarrow> ('a \<Rightarrow> 'b action) \<Rightarrow> 'b action" where
  "await m k w = (case m w of (Return v, w') \<Rightarrow> k v w' | (Throw x, w') \<Rightarrow> (Throw x, w'))"

text \<open>\<^verbatim>\<open>try { body } catch (error) { handler }\<close>.\<close>

definition try_catch :: "'a action \<Rightarrow> (thrown \<Rightarrow> 'a action) \<Rightarrow> 'a action" where
  "try_catch body handler w =
     (case body w of (Return v, w') \<Rightarrow> (Return v, w') | (Throw x, w') \<Rightarrow> handler x w')"

definition ignore :: "'a action \<Rightarrow> unit action" where
  "ignore m = await m (\<lambda>_. resolve ())"

definition console_error :: "string \<Rightarrow> thrown \<Rightarrow> unit action" where
  "console_error msg x w = (Return (), w\<lparr>console := console w @ [ConsoleError msg x]\<rparr>)"

definition console_log :: "string \<Rightarrow> thrown \<Rightarrow> unit action" where
  "console_log msg x w = (Return (), w\<lparr>console := console w @ [ConsoleLog msg x]\<rparr>)"

text \<open>The cache invalidator is an external call whose result is not consumed; the
  model records the path.\<close>

definition revalidatePath :: "string \<Rightarrow> unit action" where
  "revalidatePath path w = (Return (), w\<lparr>revalidated := revalidated w @ [path]\<rparr>)"

section \<open>The environment of one invocation\<close>

text \<open>
  The identity resolver \<^verbatim>\<open>getDbUserId\<close> lives in \<^verbatim>\<open>user.action\<close>; its result
  for the current session is a parameter: a user identifier, \<^verbatim>\<open>null\<close>
  (\<open>None\<close>), or a thrown value. Every call into the persistence client may fail
  with a lower-layer fault: \<open>fault e c\<close> is the value call site \<open>c\<close> throws, if any.
  Each action calls each site at most once. The engine's generated identifiers and
  its clock are parameters too.
\<close>

datatype call_site =
    PostCreate | PostFindMany | PostFindUnique | PostDelete
  | LikeFindUnique | LikeCreate | LikeDelete
  | CommentCreate | NotificationCreate | TransactionCommit

datatype table = PostTable | CommentTable | NotificationTable

record env =
  getDbUserId_result :: "ident option outcome"
  fault :: "call_site \<Rightarrow> thrown option"
  cuid :: "table \<Rightarrow> ident"
  now :: time

definition getDbUserId :: "env \<Rightarrow> ident option action" where
  "getDbUserId e w = (getDbUserId_result e, w)"

section \<open>The persistence client\<close>

text \<open>
  The client's calls, with the engine's own checks: a primary or unique key cannot be
  inserted twice, and \<^verbatim>\<open>delete\<close> needs its record. The two messages stand for the
  client's texts of these errors (codes P2002 and P2025). Every other reason a call can
  fail for is a \<open>fault\<close> of the environment.
\<close>

definition P2002 :: thrown where
  "P2002 = Error ''Unique constraint failed''"

definition P2025 :: thrown where
  "P2025 = Error ''Record to delete does not exist.''"

definition lower_layer :: "env \<Rightarrow> call_site \<Rightarrow> 'a action \<Rightarrow> 'a action" where
  "lower_layer e c m = (case fault e c of Some x \<Rightarrow> throw x | None \<Rightarrow> m)"

definition prisma_post_create :: "env \<Rightarrow> string \<Rightarrow> string \<Rightarrow> ident \<Rightarrow> post action" where
  "prisma_post_create e content img authorId =
     lower_layer e PostCreate (\<lambda>w.
       let p = \<lparr>post_id = cuid e PostTable, post_content = content, post_image = img,
                post_createdAt = now e, post_authorId = authorId\<rparr>
       in if post_id p \<in> set (map post_id (posts (db w))) then (Throw P2002, w)
          else (Return p, w\<lparr>db := (db w)\<lparr>posts := posts (db w) @ [p]\<rparr>\<rparr>))"

text \<open>\<^verbatim>\<open>findUnique({where: {id}, select: {authorId: true}})\<close>: the selected object has
  the one field \<^verbatim>\<open>authorId\<close>, so the result is that field, or \<^verbatim>\<open>null\<close>.\<close>

definition prisma_post_findUnique :: "env \<Rightarrow> ident \<Rightarrow> ident option action" where
  "prisma_post_findUnique e postId =
     lower_layer e PostFindUnique (\<lambda>w.
       (Return (map_option post_authorId (find (\<lambda>p. post_id p = postId) (posts (db w)))), w))"

text \<open>Modelled from the spec: the schema file is not among the sources; by the spec a
  post owns its comments and likes, which the persistence layer deletes with it.\<close>

definition prisma_post_delete :: "env \<Rightarrow> ident \<Rightarrow> unit action" where
  "prisma_post_delete e postId =
     lower_layer e PostDelete (\<lambda>w.
       if postId \<notin> set (map post_id (posts (db w))) then (Throw P2025, w)
       else (Return (), w\<lparr>db := (db w)\<lparr>
               posts := filter (\<lambda>p. post_id p \<noteq> postId) (posts (db w)),
               comments := filter (\<lambda>c. comment_postId c \<noteq> postId) (comments (db w)),
               likes := filter (\<lambda>l. like_postId l \<noteq> postId) (likes (db w))\<rparr>\<rparr>))"

definition like_key :: "ident \<Rightarrow> ident \<Rightarrow> like \<Rightarrow> bool" where
  "like_key userId postId l \<longleftrightarrow> like_userId l = userId \<and> like_postId l = postId"

definition prisma_like_findUnique :: "env \<Rightarrow> ident \<Rightarrow> ident \<Rightarrow> like option action" where
  "prisma_like_findUnique e userId postId =
     lower_layer e LikeFindUnique (\<lambda>w.
       (Return (find (like_key userId postId) (likes (db w))), w))"

definition prisma_like_create :: "env \<Rightarrow> ident \<Rightarrow> ident \<Rightarrow> like action" where
  "prisma_like_create e userId postId =
     lower_layer e LikeCreate (\<lambda>w.
       let l = \<lparr>like_userId = userId, like_postId = postId\<rparr>
       in if list_ex (like_key userId postId) (likes (db w)) then (Throw P2002, w)
          else (Return l, w\<lparr>db := (db w)\<lparr>likes := likes (db w) @ [l]\<rparr>\<rparr>))"

definition prisma_like_delete :: "env \<Rightarrow> ident \<Rightarrow> ident \<Rightarrow> unit action" where
  "prisma_like_delete e userId postId =
     lower_layer e LikeDelete (\<lambda>w.
       if \<not> list_ex (like_key userId postId) (likes (db w)) then (Throw P2025, w)
       else (Return (), w\<lparr>db := (db w)\<lparr>
               likes := filter (\<lambda>l. \<not> like_key userId postId l) (likes (db w))\<rparr>\<rparr>))"

definition prisma_comment_create :: "env \<Rightarrow> string \<Rightarrow> ident \<Rightarrow> ident \<Rightarrow> comment action" where
  "prisma_comment_create e content authorId postId =
     lower_layer e CommentCreate (\<lambda>w.
       let c = \<lparr>comment_id = cuid e CommentTable, comment_content = content,
                comment_authorId = authorId, comment_postId = postId,
                comment_createdAt = now e\<rparr>
       in if comment_id c \<in> set (map comment_id (comments (db w))) then (Throw P2002, w)
          else (Return c, w\<lparr>db := (db w)\<lparr>comments := comments (db w) @ [c]\<rparr>\<rparr>))"

definition prisma_notification_create ::
  "env \<Rightarrow> notification_type \<Rightarrow> ident \<Rightarrow> ident \<Rightarrow> ident \<Rightarrow> ident option \<Rightarrow> notification action" where
  "prisma_notification_create e type userId creatorId postId commentId =
     lower_layer e NotificationCreate (\<lambda>w.
       let n = \<lparr>notification_id = cuid e NotificationTable, notification_type = type,
                notification_userId = userId, notification_creatorId = creatorId,
                notification_postId = postId, notification_commentId = commentId\<rparr>
       in if notification_id n \<in> set (map notification_id (notifications (db w)))
          then (Throw P2002, w)
          else (Return n, w\<lparr>db := (db w)\<lparr>notifications := notifications (db w) @ [n]\<rparr>\<rparr>))"

text \<open>
  \<^verbatim>\<open>prisma.$transaction\<close> runs its statements in order and commits them together:
  when a statement or the commit fails, the database is what it was before the first
  statement. The first definition is the form that takes a function of the transaction
  client, the second the form that takes an array of statements.
\<close>

definition prisma_transaction :: "env \<Rightarrow> 'a action \<Rightarrow> 'a action" where
  "prisma_transaction e body w =
     (case body w of
        (Throw x, w') \<Rightarrow> (Throw x, w'\<lparr>db := db w\<rparr>)
      | (Return v, w') \<Rightarrow>
          (case fault e TransactionCommit of
             Some x \<Rightarrow> (Throw x, w'\<lparr>db := db w\<rparr>)
           | None \<Rightarrow> (Return v, w')))"

fun in_order :: "unit action list \<Rightarrow> unit action" where
  "in_order [] = resolve ()"
| "in_order (m # ms) = await m (\<lambda>_. in_order ms)"

definition prisma_transaction_array :: "env \<Rightarrow> unit action list \<Rightarrow> unit action" where
  "prisma_transaction_array e statements = prisma_transaction e (in_order statements)"

text \<open>
  \<^verbatim>\<open>findMany\<close> of \<^verbatim>\<open>getPosts\<close>: every post, \<^verbatim>\<open>orderBy createdAt desc\<close>, with
  the included relations. The selected author fields (id, name, image, username) are the
  fields of \<open>user\<close>; a like is selected down to its \<^verbatim>\<open>userId\<close>; \<^verbatim>\<open>_count.likes\<close>
  counts the like rows of the post. Rows with equal dates come out in table order (the
  engine promises no order among them).
\<close>

record feed_comment = comment +
  comment_author :: "user option"

record feed_post = post +
  post_author :: "user option"
  post_comments :: "feed_comment list"
  post_likes :: "ident list"
  post_count_likes :: nat

definition include_author :: "store \<Rightarrow> ident \<Rightarrow> user option" where
  "include_author s authorId = find (\<lambda>u. user_id u = authorId) (users s)"

definition include_comments :: "store \<Rightarrow> ident \<Rightarrow> feed_comment list" where
  "include_comments s postId =
     map (\<lambda>c. \<lparr>comment_id = comment_id c, comment_content = comment_content c,
               comment_authorId = comment_authorId c, comment_postId = comment_postId c,
               comment_createdAt = comment_createdAt c,
               comment_author = include_author s (comment_authorId c)\<rparr>)
         (sort_key comment_createdAt (filter (\<lambda>c. comment_postId c = postId) (comments s)))"

definition include_likes :: "store \<Rightarrow> ident \<Rightarrow> ident list" where
  "include_likes s postId = map like_userId (filter (\<lambda>l. like_postId l = postId) (likes s))"

definition count_likes :: "store \<Rightarrow> ident \<Rightarrow> nat" where
  "count_likes s postId = length (filter (\<lambda>l. like_postId l = postId) (likes s))"

definition prisma_post_findMany :: "env \<Rightarrow> feed_post list action" where
  "prisma_post_findMany e =
     lower_layer e PostFindMany (\<lambda>w.
       (Return (map (\<lambda>p. \<lparr>post_id = post_id p, post_content = post_content p,
                          post_image = post_image p, post_createdAt = post_createdAt p,
                          post_authorId = post_authorId p,
                          post_author = include_author (db w) (post_authorId p),
                          post_comments = include_comments (db w) (post_id p),
                          post_likes = include_likes (db w) (post_id p),
                          post_count_likes = count_likes (db w) (post_id p)\<rparr>)
                    (sort_key (\<lambda>p. - post_createdAt p) (posts (db w)))), w))"

section \<open>The server actions\<close>

text \<open>
  What an action hands to its caller: \<^verbatim>\<open>undefined\<close> (the bare \<^verbatim>\<open>return;\<close>), the
  envelope \<^verbatim>\<open>{success: true, ...}\<close> with its payload, or the envelope
  \<^verbatim>\<open>{success: false, error}\<close>. An \<open>outcome\<close> \<open>Throw\<close> of a server action is an
  exception that reaches the caller.
\<close>

datatype 'a response = Undefined | Success 'a | Failure string

text \<open>
  Each action is one \<^verbatim>\<open>try { ... } catch (error) { ... }\<close>: \<open>f_try\<close> is the
  \<^verbatim>\<open>try\<close> block of \<open>f\<close>, \<open>f_catch\<close> its \<^verbatim>\<open>catch\<close> block.
\<close>

definition create_post_failed :: string where
  \<comment> \<open>the source's Arabic literal ("creating the post failed"), in UTF-8\<close>
  "create_post_failed =
     [CHR 0xD9, CHR 0x81, CHR 0xD8, CHR 0xB4, CHR 0xD9, CHR 0x84, CHR 0x20, CHR 0xD8,
      CHR 0xA5, CHR 0xD9, CHR 0x86, CHR 0xD8, CHR 0xB4, CHR 0xD8, CHR 0xA7, CHR 0xD8,
      CHR 0xA1, CHR 0x20, CHR 0xD8, CHR 0xA7, CHR 0xD9, CHR 0x84, CHR 0xD9, CHR 0x85,
      CHR 0xD9, CHR 0x86, CHR 0xD8, CHR 0xB4, CHR 0xD9, CHR 0x88, CHR 0xD8, CHR 0xB1]"

subsection \<open>\<^verbatim>\<open>createPost\<close>\<close>

definition createPost_try :: "env \<Rightarrow> string \<Rightarrow> string \<Rightarrow> post response action" where
  "createPost_try e content img =
     await (getDbUserId e) (\<lambda>userId.
        case userId of None \<Rightarrow> resolve Undefined
        | Some userId \<Rightarrow>
            if userId = [] then resolve Undefined
            else
              await (prisma_post_create e content img userId) (\<lambda>post.
              await (revalidatePath ''/'') (\<lambda>_.
              resolve (Success \<lparr>post_id = post_id post, post_content = post_content post,
                                post_image = post_image post,
                                post_createdAt = post_createdAt post,
                                post_authorId = post_authorId post\<rparr>))))"

definition createPost_catch :: "thrown \<Rightarrow> post response action" where
  "createPost_catch error =
     await (console_error (create_post_failed @ '':'') error) (\<lambda>_.
     resolve (Failure (case error of Error message \<Rightarrow> message
                                   | NonError \<Rightarrow> create_post_failed)))"

definition createPost :: "env \<Rightarrow> string \<Rightarrow> string \<Rightarrow> post response action" where
  "createPost e content img = try_catch (createPost_try e content img) createPost_catch"

subsection \<open>\<^verbatim>\<open>getPosts\<close>\<close>

definition getPosts_try :: "env \<Rightarrow> feed_post list action" where
  "getPosts_try e =
     await (prisma_post_findMany e) (\<lambda>posts. resolve posts)"

definition getPosts_catch :: "thrown \<Rightarrow> feed_post list action" where
  "getPosts_catch error =
     await (console_log ''Error in getPosts'' error) (\<lambda>_.
     throw (Error ''Failed in fetch posts''))"

definition getPosts :: "env \<Rightarrow> feed_post list action" where
  "getPosts e = try_catch (getPosts_try e) getPosts_catch"

subsection \<open>\<^verbatim>\<open>toggleLike\<close>\<close>

definition toggleLike_try :: "env \<Rightarrow> ident \<Rightarrow> unit response action" where
  "toggleLike_try e postId =
     await (getDbUserId e) (\<lambda>userId.
        case userId of None \<Rightarrow> resolve Undefined
        | Some userId \<Rightarrow>
            if userId = [] then resolve Undefined
            else
              await (prisma_like_findUnique e userId postId) (\<lambda>existingLike.
              await (prisma_post_findUnique e postId) (\<lambda>post.
              case post of None \<Rightarrow> throw (Error ''Post not found'')
              | Some authorId \<Rightarrow>
                  await
                    (case existingLike of
                       Some _ \<Rightarrow> prisma_like_delete e userId postId
                     | None \<Rightarrow>
                         prisma_transaction_array e
                           ([ignore (prisma_like_create e userId postId)] @
                            (if authorId \<noteq> userId
                             then [ignore (prisma_notification_create e LIKE authorId userId
                                             postId None)]
                             else [])))
                    (\<lambda>_.
                  await (revalidatePath ''/'') (\<lambda>_.
                  resolve (Success ()))))))"

definition toggleLike_catch :: "thrown \<Rightarrow> unit response action" where
  "toggleLike_catch error =
     await (console_error ''Failed to toggle like:'' error) (\<lambda>_.
     resolve (Failure ''Failed to toggle like''))"

definition toggleLike :: "env \<Rightarrow> ident \<Rightarrow> unit response action" where
  "toggleLike e postId = try_catch (toggleLike_try e postId) toggleLike_catch"

subsection \<open>\<^verbatim>\<open>createComment\<close>\<close>

text \<open>The transaction's function returns the one-element array \<^verbatim>\<open>[newComment]\<close>, and
  \<^verbatim>\<open>const [comment] = ...\<close> takes its first element (\<^verbatim>\<open>undefined\<close> of an empty
  array).\<close>

definition createComment_try :: "env \<Rightarrow> ident \<Rightarrow> string \<Rightarrow> comment option response action" where
  "createComment_try e postId content =
     await (getDbUserId e) (\<lambda>userId.
        case userId of None \<Rightarrow> resolve Undefined
        | Some userId \<Rightarrow>
            if userId = [] then resolve Undefined
            else if content = [] then throw (Error ''Content is required'')
            else
              await (prisma_post_findUnique e postId) (\<lambda>post.
              case post of None \<Rightarrow> throw (Error ''Post not found'')
              | Some authorId \<Rightarrow>
                  await
                    (prisma_transaction e
                       (await (prisma_comment_create e content userId postId) (\<lambda>newComment.
                        await
                          (if authorId \<noteq> userId
                           then ignore (prisma_notification_create e COMMENT authorId userId
                                          postId (Some (comment_id newComment)))
                           else resolve ())
                          (\<lambda>_.
                        resolve [newComment]))))
                    (\<lambda>result.
                  let comment = (case result of [] \<Rightarrow> None | c # _ \<Rightarrow> Some c) in
                  await (revalidatePath ''/'') (\<lambda>_.
                  resolve (Success comment)))))"

definition createComment_catch :: "thrown \<Rightarrow> comment option response action" where
  "createComment_catch error =
     await (console_error ''Failed to create comment:'' error) (\<lambda>_.
     resolve (Failure ''Failed to create comment''))"

definition createComment :: "env \<Rightarrow> ident \<Rightarrow> string \<Rightarrow> comment option response action" where
  "createComment e postId content =
     try_catch (createComment_try e postId content) createComment_catch"

subsection \<open>\<^verbatim>\<open>deletePost\<close>\<close>

text \<open>\<^verbatim>\<open>post.authorId !== userId\<close> compares a string with a string or \<^verbatim>\<open>null\<close>;
  no string is strictly equal to \<^verbatim>\<open>null\<close>.\<close>

definition deletePost_try :: "env \<Rightarrow> ident \<Rightarrow> unit response action" where
  "deletePost_try e postId =
     await (getDbUserId e) (\<lambda>userId.
        await (prisma_post_findUnique e postId) (\<lambda>post.
        case post of None \<Rightarrow> throw (Error ''Post not found'')
        | Some authorId \<Rightarrow>
            if Some authorId \<noteq> userId
            then throw (Error ''Unauthorized - no delete permission'')
            else
              await (prisma_post_delete e postId) (\<lambda>_.
              await (revalidatePath ''/'') (\<lambda>_.
              resolve (Success ())))))"

definition deletePost_catch :: "thrown \<Rightarrow> unit response action" where
  "deletePost_catch error =
     await (console_error ''Failed to delete post:'' error) (\<lambda>_.
     resolve (Failure ''Failed to delete post''))"

definition deletePost :: "env \<Rightarrow> ident \<Rightarrow> unit response action" where
  "deletePost e postId = try_catch (deletePost_try e postId) deletePost_catch"

section \<open>Sequences of toggles\<close>

text \<open>
  Invocations of \<^verbatim>\<open>toggleLike\<close> on one post in strict sequence, each in its own
  environment and each starting where the one before it stopped: the responses, and the
  world after the last one.
\<close>

fun toggleLike_seq :: "env list \<Rightarrow> ident \<Rightarrow> world \<Rightarrow> unit response outcome list \<times> world" where
  "toggleLike_seq [] postId w = ([], w)"
| "toggleLike_seq (e # es) postId w =
     (case toggleLike e postId w of (r, w') \<Rightarrow>
        (case toggleLike_seq es postId w' of (rs, w'') \<Rightarrow> (r # rs, w'')))"

text \<open>The number of Like rows of user \<open>u\<close> on post \<open>postId\<close>.\<close>

definition like_count :: "ident \<Rightarrow> ident \<Rightarrow> world \<Rightarrow> nat" where
  "like_count u postId w = length (filter (like_key u postId) (likes (db w)))"

section \<open>Example data\<close>

definition alice :: user where
  "alice = \<lparr>user_id = ''u1'', user_name = Some ''Alice'', user_image = None,
            user_username = ''alice''\<rparr>"

definition bob :: user where
  "bob = \<lparr>user_id = ''u2'', user_name = None, user_image = None, user_username = ''bob''\<rparr>"

definition hello_post :: post where
  "hello_post = \<lparr>post_id = ''p1'', post_content = ''hello'', post_image = [],
                 post_createdAt = 100, post_authorId = ''u1''\<rparr>"

definition store0 :: store where
  "store0 = \<lparr>users = [alice, bob], posts = [hello_post], comments = [], likes = [],
             notifications = []\<rparr>"

definition world0 :: world where
  "world0 = \<lparr>db = store0, console = [], revalidated = []\<rparr>"

text \<open>A session whose identity resolution gives \<open>r\<close>, on a healthy database.\<close>

definition session :: "ident option outcome \<Rightarrow> env" where
  "session r = \<lparr>getDbUserId_result = r, fault = (\<lambda>_. None),
                cuid = (\<lambda>t. case t of PostTable \<Rightarrow> ''p2'' | CommentTable \<Rightarrow> ''c1''
                                      | NotificationTable \<Rightarrow> ''n1''),
                now = 200\<rparr>"

definition bob_session :: env where
  "bob_session = session (Return (Some ''u2''))"

definition alice_session :: env where
  "alice_session = session (Return (Some ''u1''))"

text \<open>The same environment, except that call site \<open>c\<close> throws \<open>x\<close>.\<close>

definition failing :: "call_site \<Rightarrow> thrown \<Rightarrow> env \<Rightarrow> env" where
  "failing c x e = e\<lparr>fault := (fault e)(c := Some x)\<rparr>"

text \<open>An environment in which the identity resolver and every database call throw.\<close>

definition outage :: env where
  "outage = \<lparr>getDbUserId_result = Throw (Error ''User not found''),
             fault = (\<lambda>_. Some (Error ''Connection refused'')),
             cuid = (\<lambda>_. ''x''), now = 0\<rparr>"

text \<open>A second world: two posts, two comments stored out of date order, one like.\<close>

definition later_post :: post where
  "later_post = \<lparr>post_id = ''p3'', post_content = ''again'', post_image = ''pic.png'',
                 post_createdAt = 300, post_authorId = ''u2''\<rparr>"

definition feed_store :: store where
  "feed_store = \<lparr>users = [alice, bob], posts = [hello_post, later_post],
     comments =
       [\<lparr>comment_id = ''c2'', comment_content = ''second'', comment_authorId = ''u1'',
         comment_postId = ''p1'', comment_createdAt = 250\<rparr>,
        \<lparr>comment_id = ''c1'', comment_content = ''first'', comment_authorId = ''u2'',
         comment_postId = ''p1'', comment_createdAt = 150\<rparr>],
     likes = [\<lparr>like_userId = ''u2'', like_postId = ''p1''\<rparr>],
     notifications = []\<rparr>"

definition feed_world :: world where
  "feed_world = \<lparr>db = feed_store, console = [], revalidated = []\<rparr>"

section \<open>Unfolding the actions\<close>

lemmas effect_defs = resolve_def throw_def await_def try_catch_def ignore_def
  console_error_def console_log_def revalidatePath_def getDbUserId_def lower_layer_def

lemmas prisma_defs = prisma_post_create_def prisma_post_findUnique_def prisma_post_delete_def
  prisma_like_findUnique_def prisma_like_create_def prisma_like_delete_def
  prisma_comment_create_def prisma_notification_create_def prisma_transaction_def
  prisma_transaction_array_def prisma_post_findMany_def

lemmas action_defs = createPost_def createPost_try_def createPost_catch_def
  toggleLike_def toggleLike_try_def toggleLike_catch_def
  createComment_def createComment_try_def createComment_catch_def
  deletePost_def deletePost_try_def deletePost_catch_def
  getPosts_def getPosts_try_def getPosts_catch_def

lemmas example_defs = alice_def bob_def hello_post_def store0_def world0_def session_def
  bob_session_def alice_session_def failing_def outage_def later_post_def feed_store_def
  feed_world_def

lemma find_like_None: "find (like_key u p) ls = None \<longleftrightarrow> \<not> list_ex (like_key u p) ls"
  by (auto simp: find_None_iff list_ex_iff)

lemma find_like_Some: "find (like_key u p) ls = Some l \<Longrightarrow> list_ex (like_key u p) ls"
  by (auto simp: find_Some_iff list_ex_iff)

lemma find_post_None:
  "find (\<lambda>p. post_id p = postId) ps = None \<longleftrightarrow> postId \<notin> post_id ` set ps"
  by (auto simp: find_None_iff)

lemma find_post_Some:
  "find (\<lambda>p. post_id p = postId) ps = Some p \<Longrightarrow> postId \<in> post_id ` set ps"
  by (auto simp: find_Some_iff)

lemma post_rebuild:
  "\<lparr>post_id = post_id p, post_content = post_content p, post_image = post_image p,
    post_createdAt = post_createdAt p, post_authorId = post_authorId p\<rparr> = (p :: post)"
  by (cases p) simp

lemma comment_rebuild:
  "\<lparr>comment_id = comment_id c, comment_content = comment_content c,
    comment_authorId = comment_authorId c, comment_postId = comment_postId c,
    comment_createdAt = comment_createdAt c\<rparr> = (c :: comment)"
  by (cases c) simp

lemma sorted_desc_sort_key:
  fixes f :: "'a \<Rightarrow> int"
  shows "sorted_wrt (\<ge>) (map f (sort_key (\<lambda>x. - f x) xs))"
proof -
  have "sorted (map (\<lambda>x. - f x) (sort_key (\<lambda>x. - f x) xs))"
    by (rule sorted_sort_key)
  then show ?thesis by (simp add: sorted_wrt_map)
qed

section \<open>What one invocation does\<close>

text \<open>
  Each lemma reads one run \<open>f e args w = (r, w')\<close>: the response \<open>r\<close> and the world
  \<open>w'\<close> the action leaves.
\<close>

subsection \<open>\<^verbatim>\<open>toggleLike\<close>\<close>

lemma toggleLike_failure_keeps_db:
  "toggleLike e postId w = (r, w') \<Longrightarrow> r \<noteq> Return (Success ()) \<Longrightarrow> db w' = db w"
  by (auto simp: action_defs effect_defs prisma_defs Let_def find_like_None
           split: option.splits outcome.splits if_splits)

lemma toggleLike_success_needs:
  "toggleLike e postId w = (Return (Success ()), w') \<Longrightarrow>
   \<exists>u p. getDbUserId_result e = Return (Some u) \<and> u \<noteq> [] \<and>
         find (\<lambda>p. post_id p = postId) (posts (db w)) = Some p"
  by (auto simp: action_defs effect_defs prisma_defs Let_def
           split: option.splits outcome.splits if_splits)

lemma toggleLike_like:
  "toggleLike e postId w = (Return (Success ()), w') \<Longrightarrow>
   getDbUserId_result e = Return (Some u) \<Longrightarrow>
   find (like_key u postId) (likes (db w)) = None \<Longrightarrow>
   find (\<lambda>p. post_id p = postId) (posts (db w)) = Some p \<Longrightarrow>
   db w' = (db w)\<lparr>
     likes := likes (db w) @ [\<lparr>like_userId = u, like_postId = postId\<rparr>],
     notifications := notifications (db w) @
       (if post_authorId p \<noteq> u
        then [\<lparr>notification_id = cuid e NotificationTable, notification_type = LIKE,
               notification_userId = post_authorId p, notification_creatorId = u,
               notification_postId = postId, notification_commentId = None\<rparr>]
        else [])\<rparr>"
  by (auto simp: action_defs effect_defs prisma_defs Let_def find_like_None
           split: option.splits outcome.splits if_splits)

lemma toggleLike_unlike:
  "toggleLike e postId w = (Return (Success ()), w') \<Longrightarrow>
   getDbUserId_result e = Return (Some u) \<Longrightarrow>
   find (like_key u postId) (likes (db w)) = Some l \<Longrightarrow>
   db w' = (db w)\<lparr>likes := filter (\<lambda>l. \<not> like_key u postId l) (likes (db w))\<rparr>"
  by (auto simp: action_defs effect_defs prisma_defs Let_def find_like_None
           split: option.splits outcome.splits if_splits)

lemma toggleLike_own_post:
  "toggleLike e postId w = (r, w') \<Longrightarrow> getDbUserId_result e = Return (Some u) \<Longrightarrow>
   find (\<lambda>p. post_id p = postId) (posts (db w)) = Some p \<Longrightarrow> post_authorId p = u \<Longrightarrow>
   notifications (db w') = notifications (db w)"
  by (auto simp: action_defs effect_defs prisma_defs Let_def find_like_None
           split: option.splits outcome.splits if_splits)

lemma toggleLike_missing_post:
  "toggleLike e postId w = (r, w') \<Longrightarrow> postId \<notin> post_id ` set (posts (db w)) \<Longrightarrow>
   db w' = db w \<and>
   (getDbUserId_result e = Return None \<longrightarrow> r = Return Undefined) \<and>
   (getDbUserId_result e = Return (Some u) \<and> u \<noteq> [] \<longrightarrow>
      r = Return (Failure ''Failed to toggle like'') \<and>
      (fault e LikeFindUnique = None \<and> fault e PostFindUnique = None \<longrightarrow>
         console w' = console w @
           [ConsoleError ''Failed to toggle like:'' (Error ''Post not found'')]))"
  by (auto simp: action_defs effect_defs prisma_defs Let_def find_post_None[symmetric]
           split: option.splits outcome.splits if_splits)

lemma toggleLike_count:
  assumes run: "toggleLike e postId w = (Return (Success ()), w')"
    and u: "getDbUserId_result e = Return (Some u)"
  shows "like_count u postId w' = (if like_count u postId w = 0 then 1 else 0)"
proof (cases "find (like_key u postId) (likes (db w))")
  case None
  from toggleLike_success_needs[OF run] u
  obtain p where "find (\<lambda>p. post_id p = postId) (posts (db w)) = Some p"
    by auto
  from toggleLike_like[OF run u None this] None show ?thesis
    by (simp add: like_count_def find_like_None list_ex_iff like_key_def)
next
  case (Some l)
  from toggleLike_unlike[OF run u Some] find_like_Some[OF Some] show ?thesis
    by (auto simp: like_count_def list_ex_iff filter_empty_conv)
qed

subsection \<open>\<^verbatim>\<open>createComment\<close>\<close>

lemma createComment_failure_keeps_db:
  "createComment e postId content w = (r, w') \<Longrightarrow> \<forall>c. r \<noteq> Return (Success c) \<Longrightarrow>
   db w' = db w"
  by (auto simp: action_defs effect_defs prisma_defs Let_def
           split: option.splits outcome.splits if_splits)

lemma createComment_success:
  "createComment e postId content w = (Return (Success c), w') \<Longrightarrow>
   \<exists>u p cm. getDbUserId_result e = Return (Some u) \<and> u \<noteq> [] \<and> content \<noteq> [] \<and>
     find (\<lambda>p. post_id p = postId) (posts (db w)) = Some p \<and>
     c = Some cm \<and>
     cm = \<lparr>comment_id = cuid e CommentTable, comment_content = content,
           comment_authorId = u, comment_postId = postId, comment_createdAt = now e\<rparr> \<and>
     db w' = (db w)\<lparr>
       comments := comments (db w) @ [cm],
       notifications := notifications (db w) @
         (if post_authorId p \<noteq> u
          then [\<lparr>notification_id = cuid e NotificationTable, notification_type = COMMENT,
                 notification_userId = post_authorId p, notification_creatorId = u,
                 notification_postId = postId,
                 notification_commentId = Some (comment_id cm)\<rparr>]
          else [])\<rparr>"
  by (auto simp: action_defs effect_defs prisma_defs Let_def
           split: option.splits outcome.splits if_splits)

lemma createComment_own_post:
  "createComment e postId content w = (r, w') \<Longrightarrow> getDbUserId_result e = Return (Some u) \<Longrightarrow>
   find (\<lambda>p. post_id p = postId) (posts (db w)) = Some p \<Longrightarrow> post_authorId p = u \<Longrightarrow>
   notifications (db w') = notifications (db w)"
  by (auto simp: action_defs effect_defs prisma_defs Let_def
           split: option.splits outcome.splits if_splits)

lemma createComment_empty:
  "createComment e postId [] w = (r, w') \<Longrightarrow>
   db w' = db w \<and>
   (getDbUserId_result e = Return None \<longrightarrow> r = Return Undefined) \<and>
   (getDbUserId_result e = Return (Some u) \<and> u \<noteq> [] \<longrightarrow>
      r = Return (Failure ''Failed to create comment'') \<and>
      console w' = console w @
        [ConsoleError ''Failed to create comment:'' (Error ''Content is required'')])"
  by (auto simp: action_defs effect_defs prisma_defs Let_def
           split: option.splits outcome.splits if_splits)

subsection \<open>\<^verbatim>\<open>deletePost\<close>\<close>

lemma deletePost_responses:
  "deletePost e postId w = (r, w') \<Longrightarrow>
   r = Return (Success ()) \<or> r = Return (Failure ''Failed to delete post'') \<and> db w' = db w"
  by (auto simp: action_defs effect_defs prisma_defs Let_def
           split: option.splits outcome.splits if_splits)

lemma deletePost_success_iff:
  "deletePost e postId w = (r, w') \<Longrightarrow>
   find (\<lambda>p. post_id p = postId) (posts (db w)) = Some p \<Longrightarrow>
   r = Return (Success ()) \<longleftrightarrow>
     getDbUserId_result e = Return (Some (post_authorId p)) \<and>
     fault e PostFindUnique = None \<and> fault e PostDelete = None"
  by (auto simp: action_defs effect_defs prisma_defs Let_def dest: find_post_Some
           split: option.splits outcome.splits if_splits)

lemma deletePost_unauthorized:
  "deletePost e postId w = (r, w') \<Longrightarrow>
   find (\<lambda>p. post_id p = postId) (posts (db w)) = Some p \<Longrightarrow>
   getDbUserId_result e = Return uid \<Longrightarrow> uid \<noteq> Some (post_authorId p) \<Longrightarrow>
   fault e PostFindUnique = None \<Longrightarrow>
   r = Return (Failure ''Failed to delete post'') \<and>
   w' = w\<lparr>console := console w @
          [ConsoleError ''Failed to delete post:''
             (Error ''Unauthorized - no delete permission'')]\<rparr>"
  by (auto simp: action_defs effect_defs prisma_defs Let_def
           split: option.splits outcome.splits if_splits)

lemma deletePost_missing_post:
  "deletePost e postId w = (r, w') \<Longrightarrow> postId \<notin> post_id ` set (posts (db w)) \<Longrightarrow>
   r = Return (Failure ''Failed to delete post'') \<and> db w' = db w \<and>
   (\<forall>uid. getDbUserId_result e = Return uid \<and> fault e PostFindUnique = None \<longrightarrow>
      console w' = console w @
        [ConsoleError ''Failed to delete post:'' (Error ''Post not found'')])"
  by (auto simp: action_defs effect_defs prisma_defs Let_def find_post_None[symmetric]
           split: option.splits outcome.splits if_splits)

lemma deletePost_deletes:
  "deletePost e postId w = (Return (Success ()), w') \<Longrightarrow>
   db w' = (db w)\<lparr>
     posts := filter (\<lambda>p. post_id p \<noteq> postId) (posts (db w)),
     comments := filter (\<lambda>c. comment_postId c \<noteq> postId) (comments (db w)),
     likes := filter (\<lambda>l. like_postId l \<noteq> postId) (likes (db w))\<rparr>"
  by (auto simp: action_defs effect_defs prisma_defs Let_def
           split: option.splits outcome.splits if_splits)

subsection \<open>Sequences of toggles\<close>

lemma toggleLike_seq_count:
  "toggleLike_seq es postId w = (rs, w') \<Longrightarrow>
   \<forall>e \<in> set es. getDbUserId_result e = Return (Some u) \<Longrightarrow>
   \<forall>r \<in> set rs. r = Return (Success ()) \<Longrightarrow> like_count u postId w \<le> 1 \<Longrightarrow>
   like_count u postId w' = (like_count u postId w + length es) mod 2"
proof (induction es arbitrary: w rs w')
  case Nil
  then show ?case by auto
next
  case (Cons e es)
  obtain r w1 where step: "toggleLike e postId w = (r, w1)"
    by (cases "toggleLike e postId w")
  obtain rs' w2 where rest: "toggleLike_seq es postId w1 = (rs', w2)"
    by (cases "toggleLike_seq es postId w1")
  from Cons.prems(1) step rest have rs: "rs = r # rs'" and w': "w' = w2"
    by auto
  from Cons.prems(3) rs have r: "r = Return (Success ())"
    and rs': "\<forall>r \<in> set rs'. r = Return (Success ())"
    by auto
  from Cons.prems(2) have u: "getDbUserId_result e = Return (Some u)"
    and us: "\<forall>e \<in> set es. getDbUserId_result e = Return (Some u)"
    by auto
  have c1: "like_count u postId w1 = (if like_count u postId w = 0 then 1 else 0)"
    using toggleLike_count[OF step[unfolded r] u] .
  then have le: "like_count u postId w1 \<le> 1"
    by simp
  from Cons.IH[OF rest[folded w'] us rs' le] c1 Cons.prems(4) show ?case
    by (auto simp: mod_Suc split: if_splits) presburger+
qed

lemma toggleLike_seq_take:
  "toggleLike_seq es postId w = (rs, w') \<Longrightarrow>
   fst (toggleLike_seq (take n es) postId w) = take n rs"
proof (induction es arbitrary: w rs w' n)
  case Nil
  then show ?case by auto
next
  case (Cons e es)
  show ?case
  proof (cases n)
    case 0
    then show ?thesis by simp
  next
    case (Suc m)
    obtain r w1 where step: "toggleLike e postId w = (r, w1)"
      by (cases "toggleLike e postId w")
    obtain rs' w2 where rest: "toggleLike_seq es postId w1 = (rs', w2)"
      by (cases "toggleLike_seq es postId w1")
    from Cons.prems step rest have rs: "rs = r # rs'"
      by auto
    from Cons.IH[OF rest, of m] Suc step rs show ?thesis
      by (auto split: prod.splits)
  qed
qed

section \<open>Runs on the example data\<close>

lemma run_outage_try:
  "fst (createPost_try outage ''hello'' [] world0) = Throw (Error ''User not found'')"
  "fst (toggleLike_try outage ''p1'' world0) = Throw (Error ''User not found'')"
  "fst (createComment_try outage ''p1'' ''hi'' world0) = Throw (Error ''User not found'')"
  "fst (deletePost_try outage ''p1'' world0) = Throw (Error ''User not found'')"
  "fault outage PostFindMany = Some (Error ''Connection refused'')"
  by (simp_all add: action_defs effect_defs example_defs)

lemma run_bob_likes:
  "toggleLike bob_session ''p1'' world0 =
     (Return (Success ()),
      world0\<lparr>db := store0\<lparr>
                likes := [\<lparr>like_userId = ''u2'', like_postId = ''p1''\<rparr>],
                notifications :=
                  [\<lparr>notification_id = ''n1'', notification_type = LIKE,
                    notification_userId = ''u1'', notification_creatorId = ''u2'',
                    notification_postId = ''p1'', notification_commentId = None\<rparr>]\<rparr>,
              revalidated := [''/'']\<rparr>)"
  by (simp add: action_defs effect_defs prisma_defs example_defs like_key_def Let_def)

lemma run_bob_like_rollback:
  "toggleLike (failing NotificationCreate (Error ''Connection refused'') bob_session)
     ''p1'' world0 =
     (Return (Failure ''Failed to toggle like''),
      world0\<lparr>console :=
        [ConsoleError ''Failed to toggle like:'' (Error ''Connection refused'')]\<rparr>)"
  by (simp add: action_defs effect_defs prisma_defs example_defs like_key_def Let_def)

lemma run_bob_comments:
  "createComment bob_session ''p1'' ''hi'' world0 =
     (Return (Success (Some
        \<lparr>comment_id = ''c1'', comment_content = ''hi'', comment_authorId = ''u2'',
         comment_postId = ''p1'', comment_createdAt = 200\<rparr>)),
      world0\<lparr>db := store0\<lparr>
                comments :=
                  [\<lparr>comment_id = ''c1'', comment_content = ''hi'', comment_authorId = ''u2'',
                    comment_postId = ''p1'', comment_createdAt = 200\<rparr>],
                notifications :=
                  [\<lparr>notification_id = ''n1'', notification_type = COMMENT,
                    notification_userId = ''u1'', notification_creatorId = ''u2'',
                    notification_postId = ''p1'', notification_commentId = Some ''c1''\<rparr>]\<rparr>,
              revalidated := [''/'']\<rparr>)"
  by (simp add: action_defs effect_defs prisma_defs example_defs Let_def)

lemma run_bob_comment_rollback:
  "createComment (failing NotificationCreate (Error ''Connection refused'') bob_session)
     ''p1'' ''hi'' world0 =
     (Return (Failure ''Failed to create comment''),
      world0\<lparr>console :=
        [ConsoleError ''Failed to create comment:'' (Error ''Connection refused'')]\<rparr>)"
  by (simp add: action_defs effect_defs prisma_defs example_defs Let_def)

lemma run_alice_likes:
  "toggleLike alice_session ''p1'' world0 =
     (Return (Success ()),
      world0\<lparr>db := store0\<lparr>likes := [\<lparr>like_userId = ''u1'', like_postId = ''p1''\<rparr>]\<rparr>,
              revalidated := [''/'']\<rparr>)"
  by (simp add: action_defs effect_defs prisma_defs example_defs like_key_def Let_def)

lemma run_alice_comments:
  "createComment alice_session ''p1'' ''hi'' world0 =
     (Return (Success (Some
        \<lparr>comment_id = ''c1'', comment_content = ''hi'', comment_authorId = ''u1'',
         comment_postId = ''p1'', comment_createdAt = 200\<rparr>)),
      world0\<lparr>db := store0\<lparr>
                comments :=
                  [\<lparr>comment_id = ''c1'', comment_content = ''hi'', comment_authorId = ''u1'',
                    comment_postId = ''p1'', comment_createdAt = 200\<rparr>]\<rparr>,
              revalidated := [''/'']\<rparr>)"
  by (simp add: action_defs effect_defs prisma_defs example_defs Let_def)

lemma run_bob_toggles_twice:
  "toggleLike_seq [bob_session, bob_session] ''p1'' world0 =
     ([Return (Success ()), Return (Success ())],
      world0\<lparr>db := store0\<lparr>
                notifications :=
                  [\<lparr>notification_id = ''n1'', notification_type = LIKE,
                    notification_userId = ''u1'', notification_creatorId = ''u2'',
                    notification_postId = ''p1'', notification_commentId = None\<rparr>]\<rparr>,
              revalidated := [''/'', ''/'']\<rparr>)"
  by (simp add: action_defs effect_defs prisma_defs example_defs like_key_def Let_def)

lemma example_lookups:
  "find (\<lambda>p. post_id p = ''p1'') (posts (db world0)) = Some hello_post"
  "find (like_key u ''p1'') (likes (db world0)) = None"
  "like_count u ''p1'' world0 = 0"
  "''p0'' \<notin> post_id ` set (posts (db world0))"
  "getDbUserId_result bob_session = Return (Some ''u2'')"
  "getDbUserId_result alice_session = Return (Some ''u1'')"
  "post_authorId hello_post = ''u1''"
  by (simp_all add: example_defs like_count_def)

lemma run_bob_deletes:
  "deletePost bob_session ''p1'' world0 =
     (Return (Failure ''Failed to delete post''),
      world0\<lparr>console := [ConsoleError ''Failed to delete post:''
                          (Error ''Unauthorized - no delete permission'')]\<rparr>)"
  by (simp add: action_defs effect_defs prisma_defs example_defs Let_def)

lemma run_alice_deletes:
  "deletePost alice_session ''p1'' world0 =
     (Return (Success ()), world0\<lparr>db := store0\<lparr>posts := []\<rparr>, revalidated := [''/'']\<rparr>)"
  by (simp add: action_defs effect_defs prisma_defs example_defs Let_def)

lemma run_alice_delete_fails:
  "deletePost (failing PostDelete (Error ''Connection refused'') alice_session) ''p1'' world0 =
     (Return (Failure ''Failed to delete post''),
      world0\<lparr>console := [ConsoleError ''Failed to delete post:''
                          (Error ''Connection refused'')]\<rparr>)"
  by (simp add: action_defs effect_defs prisma_defs example_defs Let_def)

lemma run_bob_deletes_missing:
  "deletePost bob_session ''p0'' world0 =
     (Return (Failure ''Failed to delete post''),
      world0\<lparr>console := [ConsoleError ''Failed to delete post:''
                          (Error ''Post not found'')]\<rparr>)"
  by (simp add: action_defs effect_defs prisma_defs example_defs Let_def)

lemma run_bob_likes_missing:
  "toggleLike bob_session ''p0'' world0 =
     (Return (Failure ''Failed to toggle like''),
      world0\<lparr>console := [ConsoleError ''Failed to toggle like:''
                          (Error ''Post not found'')]\<rparr>)"
  by (simp add: action_defs effect_defs prisma_defs example_defs like_key_def Let_def)

lemma run_nobody_likes_missing:
  "toggleLike (session (Return None)) ''p0'' world0 = (Return Undefined, world0)"
  by (simp add: action_defs effect_defs example_defs)

lemma run_bob_comments_blank:
  "createComment bob_session ''p1'' '' '' world0 =
     (Return (Success (Some
        \<lparr>comment_id = ''c1'', comment_content = '' '', comment_authorId = ''u2'',
         comment_postId = ''p1'', comment_createdAt = 200\<rparr>)),
      world0\<lparr>db := store0\<lparr>
                comments :=
                  [\<lparr>comment_id = ''c1'', comment_content = '' '', comment_authorId = ''u2'',
                    comment_postId = ''p1'', comment_createdAt = 200\<rparr>],
                notifications :=
                  [\<lparr>notification_id = ''n1'', notification_type = COMMENT,
                    notification_userId = ''u1'', notification_creatorId = ''u2'',
                    notification_postId = ''p1'', notification_commentId = Some ''c1''\<rparr>]\<rparr>,
              revalidated := [''/'']\<rparr>)"
  by (simp add: action_defs effect_defs prisma_defs example_defs Let_def)

lemma run_bob_comments_empty:
  "createComment bob_session ''p1'' [] world0 =
     (Return (Failure ''Failed to create comment''),
      world0\<lparr>console := [ConsoleError ''Failed to create comment:''
                          (Error ''Content is required'')]\<rparr>)"
  by (simp add: action_defs effect_defs prisma_defs example_defs Let_def)

lemma run_bob_comments_missing:
  "createComment bob_session ''p0'' ''hi'' world0 =
     (Return (Failure ''Failed to create comment''),
      world0\<lparr>console := [ConsoleError ''Failed to create comment:''
                          (Error ''Post not found'')]\<rparr>)"
  by (simp add: action_defs effect_defs prisma_defs example_defs Let_def)

lemma run_nobody_comments_empty:
  "createComment (session (Return None)) ''p1'' [] world0 = (Return Undefined, world0)"
  by (simp add: action_defs effect_defs example_defs)

lemma run_feed:
  "getPosts (session (Return None)) feed_world =
     (Return
       [\<lparr>post_id = ''p3'', post_content = ''again'', post_image = ''pic.png'',
         post_createdAt = 300, post_authorId = ''u2'', post_author = Some bob,
         post_comments = [], post_likes = [], post_count_likes = 0\<rparr>,
        \<lparr>post_id = ''p1'', post_content = ''hello'', post_image = [],
         post_createdAt = 100, post_authorId = ''u1'', post_author = Some alice,
         post_comments =
           [\<lparr>comment_id = ''c1'', comment_content = ''first'', comment_authorId = ''u2'',
             comment_postId = ''p1'', comment_createdAt = 150, comment_author = Some bob\<rparr>,
            \<lparr>comment_id = ''c2'', comment_content = ''second'', comment_authorId = ''u1'',
             comment_postId = ''p1'', comment_createdAt = 250,
             comment_author = Some alice\<rparr>],
         post_likes = [''u2''], post_count_likes = 1\<rparr>],
      feed_world)"
  by (simp add: getPosts_def getPosts_try_def prisma_post_findMany_def effect_defs
        include_author_def include_comments_def include_likes_def count_likes_def
        example_defs)

section \<open>The claims\<close>

text \<open>
  C8. When identity resolution yields no user identifier, each of \<^verbatim>\<open>createPost\<close>,
  \<^verbatim>\<open>toggleLike\<close> and \<^verbatim>\<open>createComment\<close> returns \<^verbatim>\<open>undefined\<close> (no envelope,
  no error surfaced) and leaves the world as it was: no row is written, nothing is
  logged, no path is invalidated.
\<close>

theorem unresolved_identity_returns_undefined:
  assumes "getDbUserId_result e = Return None"
  shows "createPost e content img w = (Return Undefined, w) \<and>
         toggleLike e postId w = (Return Undefined, w) \<and>
         createComment e postId c w = (Return Undefined, w)"
  using assms by (simp add: action_defs effect_defs)

text \<open>The theorem for the anonymous session on the example world.\<close>

theorem unresolved_identity_returns_undefined_witness:
  "createPost (session (Return None)) ''hello'' [] world0 = (Return Undefined, world0) \<and>
   toggleLike (session (Return None)) ''p1'' world0 = (Return Undefined, world0) \<and>
   createComment (session (Return None)) ''p1'' ''hi'' world0 = (Return Undefined, world0)"
proof -
  have "getDbUserId_result (session (Return None)) = Return None"
    by (simp add: session_def)
  from unresolved_identity_returns_undefined[OF this] show ?thesis
    by simp
qed

text \<open>
  C10. \<^verbatim>\<open>deletePost\<close> has no null check on the resolved identity. When identity
  resolution yields none and the target post exists, it does not return
  \<^verbatim>\<open>undefined\<close>: it returns the envelope \<^verbatim>\<open>{success: false, error}\<close>, the database
  is unchanged (the post is in place), and, when the lookup of the post does not fail,
  the error that was thrown and logged is the one of the ownership check.
\<close>

theorem deletePost_without_identity:
  assumes "getDbUserId_result e = Return None"
    and "find (\<lambda>p. post_id p = postId) (posts (db w)) = Some p"
    and "deletePost e postId w = (r, w')"
  shows "r = Return (Failure ''Failed to delete post'') \<and> r \<noteq> Return Undefined \<and>
         db w' = db w \<and> p \<in> set (posts (db w')) \<and>
         (fault e PostFindUnique = None \<longrightarrow>
            console w' = console w @
              [ConsoleError ''Failed to delete post:''
                 (Error ''Unauthorized - no delete permission'')])"
proof -
  from assms(2) have here: "p \<in> set (posts (db w))"
    by (auto simp: find_Some_iff in_set_conv_nth)
  from deletePost_success_iff[OF assms(3,2)] assms(1) have "r \<noteq> Return (Success ())"
    by simp
  with deletePost_responses[OF assms(3)]
  have fail: "r = Return (Failure ''Failed to delete post'')" and same: "db w' = db w"
    by auto
  have "console w' = console w @
          [ConsoleError ''Failed to delete post:''
             (Error ''Unauthorized - no delete permission'')]"
    if "fault e PostFindUnique = None"
    using deletePost_unauthorized[OF assms(3,2,1) _ that] by simp
  with fail same here show ?thesis
    by simp
qed

text \<open>The theorem for the anonymous session deleting the example post.\<close>

theorem deletePost_without_identity_witness:
  "deletePost (session (Return None)) ''p1'' world0 =
     (Return (Failure ''Failed to delete post''),
      world0\<lparr>console := [ConsoleError ''Failed to delete post:''
                          (Error ''Unauthorized - no delete permission'')]\<rparr>) \<and>
   hello_post \<in> set (posts (db (snd (deletePost (session (Return None)) ''p1'' world0))))"
proof -
  let ?e = "session (Return None)"
  have run: "deletePost ?e ''p1'' world0 =
     (Return (Failure ''Failed to delete post''),
      world0\<lparr>console := [ConsoleError ''Failed to delete post:''
                          (Error ''Unauthorized - no delete permission'')]\<rparr>)"
    by (simp add: action_defs effect_defs prisma_defs example_defs)
  have anon: "getDbUserId_result ?e = Return None"
    by (simp add: session_def)
  have post: "find (\<lambda>p. post_id p = ''p1'') (posts (db world0)) = Some hello_post"
    by (simp add: example_defs)
  from deletePost_without_identity[OF anon post run] run show ?thesis
    by simp
qed

text \<open>
  C9. No mutation (\<^verbatim>\<open>createPost\<close>, \<^verbatim>\<open>toggleLike\<close>, \<^verbatim>\<open>createComment\<close>,
  \<^verbatim>\<open>deletePost\<close>) ever raises to its caller, and in every failing execution, one
  in which something is thrown inside its \<^verbatim>\<open>try\<close> block (by the identity resolver,
  by a query, or by a check of the action itself), it returns the envelope
  \<^verbatim>\<open>{success: false, error}\<close>. \<^verbatim>\<open>getPosts\<close> alone turns a failure of its query
  into a raised error, the generic \<^verbatim>\<open>Failed in fetch posts\<close>.
\<close>

theorem mutations_fail_soft_getPosts_raises:
  "(\<exists>r. fst (createPost e content img w) = Return r) \<and>
   (\<exists>r. fst (toggleLike e postId w) = Return r) \<and>
   (\<exists>r. fst (createComment e postId c w) = Return r) \<and>
   (\<exists>r. fst (deletePost e postId w) = Return r) \<and>
   (\<forall>x. fst (createPost_try e content img w) = Throw x \<longrightarrow>
      fst (createPost e content img w) =
        Return (Failure (case x of Error message \<Rightarrow> message
                                 | NonError \<Rightarrow> create_post_failed))) \<and>
   (\<forall>x. fst (toggleLike_try e postId w) = Throw x \<longrightarrow>
      fst (toggleLike e postId w) = Return (Failure ''Failed to toggle like'')) \<and>
   (\<forall>x. fst (createComment_try e postId c w) = Throw x \<longrightarrow>
      fst (createComment e postId c w) = Return (Failure ''Failed to create comment'')) \<and>
   (\<forall>x. fst (deletePost_try e postId w) = Throw x \<longrightarrow>
      fst (deletePost e postId w) = Return (Failure ''Failed to delete post'')) \<and>
   (\<forall>x. fault e PostFindMany = Some x \<longrightarrow>
      fst (getPosts e w) = Throw (Error ''Failed in fetch posts''))"
  by (auto simp: createPost_def createPost_catch_def toggleLike_def toggleLike_catch_def
        createComment_def createComment_catch_def deletePost_def deletePost_catch_def
        getPosts_def getPosts_try_def getPosts_catch_def prisma_post_findMany_def
        effect_defs
      split: prod.splits outcome.splits)

text \<open>The theorem during an outage: the resolver and every query throw.\<close>

theorem mutations_fail_soft_getPosts_raises_witness:
  "fst (createPost outage ''hello'' [] world0) = Return (Failure ''User not found'') \<and>
   fst (toggleLike outage ''p1'' world0) = Return (Failure ''Failed to toggle like'') \<and>
   fst (createComment outage ''p1'' ''hi'' world0) =
     Return (Failure ''Failed to create comment'') \<and>
   fst (deletePost outage ''p1'' world0) = Return (Failure ''Failed to delete post'') \<and>
   fst (getPosts outage world0) = Throw (Error ''Failed in fetch posts'')"
  using mutations_fail_soft_getPosts_raises[of outage "''hello''" "[]" world0 "''p1''" "''hi''"]
  by (simp add: run_outage_try)

text \<open>
  C1. In every invocation of \<^verbatim>\<open>toggleLike\<close> that creates a Like and every invocation
  of \<^verbatim>\<open>createComment\<close> that creates a Comment, the conditional Notification write
  is in one atomic unit with it. Whatever fails, and wherever: an invocation that does
  not return the success envelope leaves the database as it was (neither row), and one
  that returns it has appended the Like (resp. Comment) row together with the
  Notification that is due (one when the actor is not the post's author, none
  otherwise).
\<close>

theorem notification_write_is_atomic:
  assumes "toggleLike e postId w = (r, w')"
    and "createComment e postId content w = (r2, w2)"
  shows
    "(r \<noteq> Return (Success ()) \<longrightarrow> db w' = db w) \<and>
     (\<forall>u p. r = Return (Success ()) \<and> getDbUserId_result e = Return (Some u) \<and>
            find (like_key u postId) (likes (db w)) = None \<and>
            find (\<lambda>p. post_id p = postId) (posts (db w)) = Some p \<longrightarrow>
        likes (db w') = likes (db w) @ [\<lparr>like_userId = u, like_postId = postId\<rparr>] \<and>
        notifications (db w') = notifications (db w) @
          (if post_authorId p \<noteq> u
           then [\<lparr>notification_id = cuid e NotificationTable, notification_type = LIKE,
                  notification_userId = post_authorId p, notification_creatorId = u,
                  notification_postId = postId, notification_commentId = None\<rparr>]
           else [])) \<and>
     ((\<forall>c. r2 \<noteq> Return (Success c)) \<longrightarrow> db w2 = db w) \<and>
     (\<forall>c. r2 = Return (Success c) \<longrightarrow>
        (\<exists>u p row. getDbUserId_result e = Return (Some u) \<and>
           find (\<lambda>p. post_id p = postId) (posts (db w)) = Some p \<and> c = Some row \<and>
           comments (db w2) = comments (db w) @ [row] \<and>
           notifications (db w2) = notifications (db w) @
             (if post_authorId p \<noteq> u
              then [\<lparr>notification_id = cuid e NotificationTable,
                     notification_type = COMMENT,
                     notification_userId = post_authorId p, notification_creatorId = u,
                     notification_postId = postId,
                     notification_commentId = Some (comment_id row)\<rparr>]
              else [])))"
proof -
  have like_fail: "r \<noteq> Return (Success ()) \<longrightarrow> db w' = db w"
    using toggleLike_failure_keeps_db[OF assms(1)] by blast
  have like_ok: "likes (db w') = likes (db w) @ [\<lparr>like_userId = u, like_postId = postId\<rparr>] \<and>
        notifications (db w') = notifications (db w) @
          (if post_authorId p \<noteq> u
           then [\<lparr>notification_id = cuid e NotificationTable, notification_type = LIKE,
                  notification_userId = post_authorId p, notification_creatorId = u,
                  notification_postId = postId, notification_commentId = None\<rparr>]
           else [])"
    if "r = Return (Success ())" "getDbUserId_result e = Return (Some u)"
       "find (like_key u postId) (likes (db w)) = None"
       "find (\<lambda>p. post_id p = postId) (posts (db w)) = Some p" for u p
    using toggleLike_like[OF assms(1)[unfolded that(1)] that(2,3,4)] by simp
  have comment_fail: "(\<forall>c. r2 \<noteq> Return (Success c)) \<longrightarrow> db w2 = db w"
    using createComment_failure_keeps_db[OF assms(2)] by blast
  have comment_ok: "\<exists>u p row. getDbUserId_result e = Return (Some u) \<and>
           find (\<lambda>p. post_id p = postId) (posts (db w)) = Some p \<and> c = Some row \<and>
           comments (db w2) = comments (db w) @ [row] \<and>
           notifications (db w2) = notifications (db w) @
             (if post_authorId p \<noteq> u
              then [\<lparr>notification_id = cuid e NotificationTable,
                     notification_type = COMMENT,
                     notification_userId = post_authorId p, notification_creatorId = u,
                     notification_postId = postId,
                     notification_commentId = Some (comment_id row)\<rparr>]
              else [])"
    if "r2 = Return (Success c)" for c
  proof -
    from createComment_success[OF assms(2)[unfolded that]]
    obtain u p cm where "getDbUserId_result e = Return (Some u)"
      "find (\<lambda>p. post_id p = postId) (posts (db w)) = Some p" "c = Some cm"
      "db w2 = (db w)\<lparr>
         comments := comments (db w) @ [cm],
         notifications := notifications (db w) @
           (if post_authorId p \<noteq> u
            then [\<lparr>notification_id = cuid e NotificationTable, notification_type = COMMENT,
                   notification_userId = post_authorId p, notification_creatorId = u,
                   notification_postId = postId,
                   notification_commentId = Some (comment_id cm)\<rparr>]
            else [])\<rparr>"
      by blast
    then show ?thesis
      by (intro exI[of _ u] exI[of _ p] exI[of _ cm]) simp
  qed
  from like_fail like_ok comment_fail comment_ok show ?thesis
    by blast
qed

text \<open>
  The theorem where the Notification insert of both transactions fails: the Like and
  the Comment are rolled back with it. And where nothing fails: both rows of each pair
  are there.
\<close>

theorem notification_write_is_atomic_witness:
  "db (snd (toggleLike (failing NotificationCreate (Error ''Connection refused'') bob_session)
              ''p1'' world0)) = db world0 \<and>
   db (snd (createComment (failing NotificationCreate (Error ''Connection refused'')
              bob_session) ''p1'' ''hi'' world0)) = db world0 \<and>
   likes (db (snd (toggleLike bob_session ''p1'' world0))) =
     [\<lparr>like_userId = ''u2'', like_postId = ''p1''\<rparr>] \<and>
   notifications (db (snd (toggleLike bob_session ''p1'' world0))) =
     [\<lparr>notification_id = ''n1'', notification_type = LIKE,
       notification_userId = ''u1'', notification_creatorId = ''u2'',
       notification_postId = ''p1'', notification_commentId = None\<rparr>]"
proof -
  from notification_write_is_atomic[OF run_bob_like_rollback run_bob_comment_rollback]
  have rolled_back:
    "db (world0\<lparr>console :=
        [ConsoleError ''Failed to toggle like:'' (Error ''Connection refused'')]\<rparr>) = db world0"
    "db (world0\<lparr>console :=
        [ConsoleError ''Failed to create comment:'' (Error ''Connection refused'')]\<rparr>) = db world0"
    by simp_all
  from notification_write_is_atomic[OF run_bob_likes run_bob_comments]
    example_lookups(1,2,5,7)
  have both: "likes (db (snd (toggleLike bob_session ''p1'' world0))) =
       likes (db world0) @ [\<lparr>like_userId = ''u2'', like_postId = ''p1''\<rparr>] \<and>
     notifications (db (snd (toggleLike bob_session ''p1'' world0))) =
       notifications (db world0) @
         [\<lparr>notification_id = cuid bob_session NotificationTable, notification_type = LIKE,
           notification_userId = ''u1'', notification_creatorId = ''u2'',
           notification_postId = ''p1'', notification_commentId = None\<rparr>]"
    by (simp add: run_bob_likes)
  have cuid: "cuid bob_session NotificationTable = ''n1''"
    and empty: "likes (db world0) = []" "notifications (db world0) = []"
    by (simp_all add: example_defs)
  from rolled_back both show ?thesis
    unfolding run_bob_like_rollback run_bob_comment_rollback cuid empty
    by simp
qed

text \<open>
  C2. For a post \<open>p\<close> and an actor \<open>u\<close>: if \<open>u\<close> is the author of \<open>p\<close>, neither
  \<^verbatim>\<open>toggleLike\<close> nor \<^verbatim>\<open>createComment\<close> on \<open>p\<close> creates a Notification, whatever
  their outcome. If \<open>u\<close> is not the author, a successful like from none creates exactly
  one Notification, of kind LIKE, addressed to the author, with creator \<open>u\<close>; and a
  successful \<^verbatim>\<open>createComment\<close> creates exactly one Comment and exactly one
  Notification, of kind COMMENT, addressed to the author, whose \<^verbatim>\<open>commentId\<close> is the
  identifier of the new comment.
\<close>

theorem notification_only_for_others:
  assumes "find (\<lambda>p. post_id p = postId) (posts (db w)) = Some p"
    and "getDbUserId_result e = Return (Some u)"
    and "toggleLike e postId w = (r, w')"
    and "createComment e postId content w = (r2, w2)"
  shows
    "(u = post_authorId p \<longrightarrow>
        notifications (db w') = notifications (db w) \<and>
        notifications (db w2) = notifications (db w)) \<and>
     (u \<noteq> post_authorId p \<and> find (like_key u postId) (likes (db w)) = None \<and>
      r = Return (Success ()) \<longrightarrow>
        notifications (db w') = notifications (db w) @
          [\<lparr>notification_id = cuid e NotificationTable, notification_type = LIKE,
            notification_userId = post_authorId p, notification_creatorId = u,
            notification_postId = postId, notification_commentId = None\<rparr>]) \<and>
     (\<forall>c. u \<noteq> post_authorId p \<and> r2 = Return (Success c) \<longrightarrow>
        (\<exists>row. c = Some row \<and>
           comments (db w2) = comments (db w) @ [row] \<and>
           notifications (db w2) = notifications (db w) @
             [\<lparr>notification_id = cuid e NotificationTable, notification_type = COMMENT,
               notification_userId = post_authorId p, notification_creatorId = u,
               notification_postId = postId,
               notification_commentId = Some (comment_id row)\<rparr>]))"
proof -
  have own: "notifications (db w') = notifications (db w) \<and>
        notifications (db w2) = notifications (db w)" if "u = post_authorId p"
    using toggleLike_own_post[OF assms(3,2,1)] createComment_own_post[OF assms(4,2,1)] that
    by simp
  have liked: "notifications (db w') = notifications (db w) @
          [\<lparr>notification_id = cuid e NotificationTable, notification_type = LIKE,
            notification_userId = post_authorId p, notification_creatorId = u,
            notification_postId = postId, notification_commentId = None\<rparr>]"
    if "u \<noteq> post_authorId p" "find (like_key u postId) (likes (db w)) = None"
       "r = Return (Success ())"
    using toggleLike_like[OF assms(3)[unfolded that(3)] assms(2) that(2) assms(1)] that(1)
    by simp
  have commented: "\<exists>row. c = Some row \<and>
           comments (db w2) = comments (db w) @ [row] \<and>
           notifications (db w2) = notifications (db w) @
             [\<lparr>notification_id = cuid e NotificationTable, notification_type = COMMENT,
               notification_userId = post_authorId p, notification_creatorId = u,
               notification_postId = postId,
               notification_commentId = Some (comment_id row)\<rparr>]"
    if "u \<noteq> post_authorId p" "r2 = Return (Success c)" for c
  proof -
    from createComment_success[OF assms(4)[unfolded that(2)]]
    obtain u' p' cm where *: "getDbUserId_result e = Return (Some u')"
      "find (\<lambda>p. post_id p = postId) (posts (db w)) = Some p'" "c = Some cm"
      "db w2 = (db w)\<lparr>
         comments := comments (db w) @ [cm],
         notifications := notifications (db w) @
           (if post_authorId p' \<noteq> u'
            then [\<lparr>notification_id = cuid e NotificationTable, notification_type = COMMENT,
                   notification_userId = post_authorId p', notification_creatorId = u',
                   notification_postId = postId,
                   notification_commentId = Some (comment_id cm)\<rparr>]
            else [])\<rparr>"
      by blast
    from *(1,2) assms(1,2) have "u' = u" "p' = p"
      by simp_all
    with * that(1) show ?thesis
      by (intro exI[of _ cm]) auto
  qed
  from own liked commented show ?thesis
    by blast
qed

text \<open>
  The theorem on the example post, which is Alice's: Bob's like and Bob's comment each
  create the one Notification for Alice; Alice's own like and comment create none.
\<close>

theorem notification_only_for_others_witness:
  "notifications (db (snd (toggleLike bob_session ''p1'' world0))) =
     [\<lparr>notification_id = ''n1'', notification_type = LIKE,
       notification_userId = ''u1'', notification_creatorId = ''u2'',
       notification_postId = ''p1'', notification_commentId = None\<rparr>] \<and>
   notifications (db (snd (createComment bob_session ''p1'' ''hi'' world0))) =
     [\<lparr>notification_id = ''n1'', notification_type = COMMENT,
       notification_userId = ''u1'', notification_creatorId = ''u2'',
       notification_postId = ''p1'', notification_commentId = Some ''c1''\<rparr>] \<and>
   notifications (db (snd (toggleLike alice_session ''p1'' world0))) = [] \<and>
   notifications (db (snd (createComment alice_session ''p1'' ''hi'' world0))) = []"
proof -
  have cuid: "cuid bob_session NotificationTable = ''n1''"
    and empty: "notifications (db world0) = []"
    by (simp_all add: example_defs)
  from notification_only_for_others[OF example_lookups(1,5) run_bob_likes run_bob_comments]
    example_lookups(2)[of "''u2''"]
  have others:
    "notifications (db (snd (toggleLike bob_session ''p1'' world0))) =
       notifications (db world0) @
       [\<lparr>notification_id = cuid bob_session NotificationTable, notification_type = LIKE,
         notification_userId = ''u1'', notification_creatorId = ''u2'',
         notification_postId = ''p1'', notification_commentId = None\<rparr>]"
    "notifications (db (snd (createComment bob_session ''p1'' ''hi'' world0))) =
       notifications (db world0) @
       [\<lparr>notification_id = cuid bob_session NotificationTable, notification_type = COMMENT,
         notification_userId = ''u1'', notification_creatorId = ''u2'',
         notification_postId = ''p1'', notification_commentId = Some ''c1''\<rparr>]"
    by (simp_all add: run_bob_likes run_bob_comments example_lookups(7))
  from notification_only_for_others[OF example_lookups(1,6) run_alice_likes
    run_alice_comments]
  have own:
    "notifications (db (snd (toggleLike alice_session ''p1'' world0))) =
       notifications (db world0)"
    "notifications (db (snd (createComment alice_session ''p1'' ''hi'' world0))) =
       notifications (db world0)"
    by (simp_all add: run_alice_likes run_alice_comments example_lookups(7))
  from others own show ?thesis
    unfolding cuid empty by simp
qed

text \<open>
  C4. User \<open>u\<close> invokes \<^verbatim>\<open>toggleLike\<close> on one post in strict sequence, every
  invocation returns the success envelope, and there is no Like of \<open>u\<close> on the post at
  the start. Then after the first \<open>n\<close> invocations the number of Like rows of \<open>u\<close> on
  the post is one when \<open>n\<close> is odd and zero when \<open>n\<close> is even: a Like exists exactly
  when \<open>n\<close> is odd, and there is never more than one.
\<close>

theorem toggleLike_parity:
  assumes "toggleLike_seq es postId w = (rs, w')"
    and "\<forall>e \<in> set es. getDbUserId_result e = Return (Some u)"
    and "\<forall>r \<in> set rs. r = Return (Success ())"
    and "like_count u postId w = 0"
    and "n \<le> length es"
  shows "like_count u postId (snd (toggleLike_seq (take n es) postId w)) =
           (if odd n then 1 else 0)"
proof -
  obtain rs_n w_n where run: "toggleLike_seq (take n es) postId w = (rs_n, w_n)"
    by (cases "toggleLike_seq (take n es) postId w")
  with toggleLike_seq_take[OF assms(1), of n] have "rs_n = take n rs"
    by simp
  with assms(3) have ok: "\<forall>r \<in> set rs_n. r = Return (Success ())"
    by (auto dest: in_set_takeD)
  from assms(2) have by_u: "\<forall>e \<in> set (take n es). getDbUserId_result e = Return (Some u)"
    by (auto dest: in_set_takeD)
  from assms(4) have "like_count u postId w \<le> 1"
    by simp
  from toggleLike_seq_count[OF run by_u ok this] assms(4,5)
  have "like_count u postId w_n = n mod 2"
    by simp
  with run show ?thesis
    by (simp add: odd_iff_mod_2_eq_one)
qed

text \<open>The theorem for Bob toggling the example post twice: one Like after the first
  toggle, none after the second.\<close>

theorem toggleLike_parity_witness:
  "like_count ''u2'' ''p1''
     (snd (toggleLike_seq (take 1 [bob_session, bob_session]) ''p1'' world0)) = 1 \<and>
   like_count ''u2'' ''p1''
     (snd (toggleLike_seq (take 2 [bob_session, bob_session]) ''p1'' world0)) = 0"
proof -
  have by_bob: "\<forall>e \<in> set [bob_session, bob_session].
      getDbUserId_result e = Return (Some ''u2'')"
    by (simp add: example_lookups(5))
  have ok: "\<forall>r \<in> set [Return (Success ()), Return (Success ())]. r = Return (Success ())"
    by simp
  note parity = toggleLike_parity[OF run_bob_toggles_twice by_bob ok example_lookups(3)]
  from parity[of 1] parity[of 2] show ?thesis
    by simp
qed

text \<open>
  C3, as the code has it. For an existing post \<open>p\<close>, \<^verbatim>\<open>deletePost\<close> returns the success
  envelope exactly when the resolved identity is the author of \<open>p\<close> and neither the
  lookup nor the delete fails in the lower layer; the post is then gone. When the
  identity is not the author, the result is the envelope
  \<^verbatim>\<open>{success: false, error: "Failed to delete post"}\<close> and the database is unchanged,
  the post still there. The authorization error is what is thrown and logged; the
  envelope carries the same generic text as for every other failure.
\<close>

theorem deletePost_owner_only:
  assumes "find (\<lambda>p. post_id p = postId) (posts (db w)) = Some p"
    and "deletePost e postId w = (r, w')"
  shows
    "(r = Return (Success ()) \<longleftrightarrow>
        getDbUserId_result e = Return (Some (post_authorId p)) \<and>
        fault e PostFindUnique = None \<and> fault e PostDelete = None) \<and>
     (r = Return (Success ()) \<longrightarrow> postId \<notin> post_id ` set (posts (db w'))) \<and>
     (getDbUserId_result e \<noteq> Return (Some (post_authorId p)) \<longrightarrow>
        r = Return (Failure ''Failed to delete post'') \<and> db w' = db w \<and>
        p \<in> set (posts (db w'))) \<and>
     (\<forall>uid. getDbUserId_result e = Return uid \<and> uid \<noteq> Some (post_authorId p) \<and>
            fault e PostFindUnique = None \<longrightarrow>
        console w' = console w @
          [ConsoleError ''Failed to delete post:''
             (Error ''Unauthorized - no delete permission'')])"
proof -
  note iff = deletePost_success_iff[OF assms(2,1)]
  have gone: "postId \<notin> post_id ` set (posts (db w'))" if "r = Return (Success ())"
    using deletePost_deletes[OF assms(2)[unfolded that]] by auto
  from assms(1) have here: "p \<in> set (posts (db w))"
    by (auto simp: find_Some_iff in_set_conv_nth)
  have kept: "r = Return (Failure ''Failed to delete post'') \<and> db w' = db w \<and>
        p \<in> set (posts (db w'))"
    if "getDbUserId_result e \<noteq> Return (Some (post_authorId p))"
    using deletePost_responses[OF assms(2)] iff that here by auto
  have logged: "console w' = console w @
          [ConsoleError ''Failed to delete post:''
             (Error ''Unauthorized - no delete permission'')]"
    if "getDbUserId_result e = Return uid" "uid \<noteq> Some (post_authorId p)"
       "fault e PostFindUnique = None" for uid
    using deletePost_unauthorized[OF assms(2,1) that] by simp
  from iff gone kept logged show ?thesis
    by blast
qed

text \<open>The theorem on the example post: its author Alice deletes it; Bob does not.\<close>

theorem deletePost_owner_only_witness:
  "fst (deletePost alice_session ''p1'' world0) = Return (Success ()) \<and>
   ''p1'' \<notin> post_id ` set (posts (db (snd (deletePost alice_session ''p1'' world0)))) \<and>
   fst (deletePost bob_session ''p1'' world0) = Return (Failure ''Failed to delete post'') \<and>
   hello_post \<in> set (posts (db (snd (deletePost bob_session ''p1'' world0)))) \<and>
   console (snd (deletePost bob_session ''p1'' world0)) =
     [ConsoleError ''Failed to delete post:''
        (Error ''Unauthorized - no delete permission'')]"
proof -
  have healthy: "fault alice_session PostFindUnique = None"
    "fault alice_session PostDelete = None" "fault bob_session PostFindUnique = None"
    "console world0 = []"
    by (simp_all add: example_defs)
  from deletePost_owner_only[OF example_lookups(1) run_alice_deletes] healthy
    example_lookups(6,7)
  have alice: "''p1'' \<notin> post_id ` set (posts (db (snd (deletePost alice_session ''p1'' world0))))"
    by (simp add: run_alice_deletes)
  from deletePost_owner_only[OF example_lookups(1) run_bob_deletes] healthy
    example_lookups(5,7)
  have bob: "hello_post \<in> set (posts (db (snd (deletePost bob_session ''p1'' world0))))"
    "console (snd (deletePost bob_session ''p1'' world0)) =
       [ConsoleError ''Failed to delete post:''
          (Error ''Unauthorized - no delete permission'')]"
    by (simp_all add: run_bob_deletes)
  from alice bob show ?thesis
    by (simp add: run_alice_deletes run_bob_deletes)
qed

text \<open>
  Where the claim as stated fails. Bob, who is not the author, gets the envelope whose
  error is \<^verbatim>\<open>Failed to delete post\<close>, the very envelope of a post that does not exist:
  it reports no authorization failure. And Alice, who is the author, gets no success
  envelope when the delete fails in the database.
\<close>

theorem deletePost_counterexample:
  "fst (deletePost bob_session ''p1'' world0) = Return (Failure ''Failed to delete post'') \<and>
   fst (deletePost bob_session ''p1'' world0) = fst (deletePost bob_session ''p0'' world0) \<and>
   getDbUserId_result (failing PostDelete (Error ''Connection refused'') alice_session) =
     Return (Some (post_authorId hello_post)) \<and>
   fst (deletePost (failing PostDelete (Error ''Connection refused'') alice_session)
          ''p1'' world0) \<noteq> Return (Success ())"
  by (simp add: run_bob_deletes run_bob_deletes_missing run_alice_delete_fails)
     (simp add: example_defs)

text \<open>
  C5, as the code has it. \<^verbatim>\<open>createComment\<close> with empty content creates no Comment row
  and no Notification row (the database is unchanged), and with a resolved identity it
  returns the envelope \<^verbatim>\<open>{success: false, error: "Failed to create comment"}\<close>; the
  validation error \<^verbatim>\<open>Content is required\<close> is what is thrown and logged. With no
  identity it returns \<^verbatim>\<open>undefined\<close>. Content of white space only is not empty and
  is accepted.
\<close>

theorem createComment_empty_content:
  assumes "createComment e postId [] w = (r, w')"
  shows
    "db w' = db w \<and>
     (getDbUserId_result e = Return None \<longrightarrow> r = Return Undefined) \<and>
     (\<forall>u. getDbUserId_result e = Return (Some u) \<and> u \<noteq> [] \<longrightarrow>
        r = Return (Failure ''Failed to create comment'') \<and>
        console w' = console w @
          [ConsoleError ''Failed to create comment:'' (Error ''Content is required'')])"
  using createComment_empty[OF assms] by blast

text \<open>The theorem for Bob commenting with the empty string on the example post.\<close>

theorem createComment_empty_content_witness:
  "db (snd (createComment bob_session ''p1'' [] world0)) = db world0 \<and>
   fst (createComment bob_session ''p1'' [] world0) =
     Return (Failure ''Failed to create comment'') \<and>
   console (snd (createComment bob_session ''p1'' [] world0)) =
     [ConsoleError ''Failed to create comment:'' (Error ''Content is required'')]"
proof -
  have "console world0 = []"
    by (simp add: example_defs)
  with createComment_empty_content[OF run_bob_comments_empty] example_lookups(5)
  show ?thesis
    by (simp add: run_bob_comments_empty)
qed

text \<open>
  Where the claim as stated fails. A comment of one space is created, with its
  Notification. Without an identity the empty comment gets \<^verbatim>\<open>undefined\<close>, not an
  envelope. And the envelope of the empty comment is the envelope of a comment on a post
  that does not exist: its text names no validation error.
\<close>

theorem createComment_counterexample:
  "fst (createComment bob_session ''p1'' '' '' world0) =
     Return (Success (Some
       \<lparr>comment_id = ''c1'', comment_content = '' '', comment_authorId = ''u2'',
        comment_postId = ''p1'', comment_createdAt = 200\<rparr>)) \<and>
   length (comments (db (snd (createComment bob_session ''p1'' '' '' world0)))) = 1 \<and>
   length (notifications (db (snd (createComment bob_session ''p1'' '' '' world0)))) = 1 \<and>
   createComment (session (Return None)) ''p1'' [] world0 = (Return Undefined, world0) \<and>
   fst (createComment bob_session ''p1'' [] world0) =
     fst (createComment bob_session ''p0'' ''hi'' world0)"
  by (simp add: run_bob_comments_blank run_nobody_comments_empty run_bob_comments_empty
        run_bob_comments_missing)

text \<open>
  C7, as the code has it. For a \<^verbatim>\<open>postId\<close> that refers to no post, \<^verbatim>\<open>deletePost\<close>
  always, and \<^verbatim>\<open>toggleLike\<close> with a resolved identity, return the failure envelope
  with the action's generic text (\<^verbatim>\<open>Failed to delete post\<close>,
  \<^verbatim>\<open>Failed to toggle like\<close>), and both leave the database unchanged. The error
  \<^verbatim>\<open>Post not found\<close> is what is thrown and logged when the lookups themselves do not
  fail; it is not in the envelope. With no identity \<^verbatim>\<open>toggleLike\<close> returns
  \<^verbatim>\<open>undefined\<close>.
\<close>

theorem missing_post_fails:
  assumes "postId \<notin> post_id ` set (posts (db w))"
    and "toggleLike e postId w = (r, w')"
    and "deletePost e postId w = (r2, w2)"
  shows
    "db w' = db w \<and> db w2 = db w \<and>
     r2 = Return (Failure ''Failed to delete post'') \<and>
     (getDbUserId_result e = Return None \<longrightarrow> r = Return Undefined) \<and>
     (\<forall>u. getDbUserId_result e = Return (Some u) \<and> u \<noteq> [] \<longrightarrow>
        r = Return (Failure ''Failed to toggle like'')) \<and>
     (\<forall>u. getDbUserId_result e = Return (Some u) \<and> u \<noteq> [] \<and>
          fault e LikeFindUnique = None \<and> fault e PostFindUnique = None \<longrightarrow>
        console w' = console w @
          [ConsoleError ''Failed to toggle like:'' (Error ''Post not found'')]) \<and>
     (\<forall>uid. getDbUserId_result e = Return uid \<and> fault e PostFindUnique = None \<longrightarrow>
        console w2 = console w @
          [ConsoleError ''Failed to delete post:'' (Error ''Post not found'')])"
  using toggleLike_missing_post[OF assms(2,1)] deletePost_missing_post[OF assms(3,1)]
  by blast

text \<open>The theorem for Bob and a post identifier that is not in the example world.\<close>

theorem missing_post_fails_witness:
  "db (snd (toggleLike bob_session ''p0'' world0)) = db world0 \<and>
   db (snd (deletePost bob_session ''p0'' world0)) = db world0 \<and>
   fst (toggleLike bob_session ''p0'' world0) = Return (Failure ''Failed to toggle like'') \<and>
   fst (deletePost bob_session ''p0'' world0) = Return (Failure ''Failed to delete post'') \<and>
   console (snd (toggleLike bob_session ''p0'' world0)) =
     [ConsoleError ''Failed to toggle like:'' (Error ''Post not found'')] \<and>
   console (snd (deletePost bob_session ''p0'' world0)) =
     [ConsoleError ''Failed to delete post:'' (Error ''Post not found'')]"
proof -
  have healthy: "fault bob_session LikeFindUnique = None"
    "fault bob_session PostFindUnique = None" "console world0 = []"
    by (simp_all add: example_defs)
  from missing_post_fails[OF example_lookups(4) run_bob_likes_missing run_bob_deletes_missing]
    healthy example_lookups(5)
  show ?thesis
    by (simp add: run_bob_likes_missing run_bob_deletes_missing)
qed

text \<open>
  Where the claim as stated fails. For a post that does not exist the envelope's error
  is the action's generic text, not \<^verbatim>\<open>Post not found\<close>, which only reaches the
  console; and without an identity \<^verbatim>\<open>toggleLike\<close> returns \<^verbatim>\<open>undefined\<close>, no
  envelope.
\<close>

theorem missing_post_counterexample:
  "fst (toggleLike bob_session ''p0'' world0) = Return (Failure ''Failed to toggle like'') \<and>
   fst (toggleLike bob_session ''p0'' world0) \<noteq> Return (Failure ''Post not found'') \<and>
   fst (deletePost bob_session ''p0'' world0) = Return (Failure ''Failed to delete post'') \<and>
   fst (deletePost bob_session ''p0'' world0) \<noteq> Return (Failure ''Post not found'') \<and>
   toggleLike (session (Return None)) ''p0'' world0 = (Return Undefined, world0)"
  by (simp add: run_bob_likes_missing run_bob_deletes_missing run_nobody_likes_missing)

text \<open>
  C6. In every state of the store, \<^verbatim>\<open>getPosts\<close> (when its query does not fail)
  returns the posts of the store, ordered by \<^verbatim>\<open>createdAt\<close> descending; within each
  returned post its comments are the comments of that post, ordered by \<^verbatim>\<open>createdAt\<close>
  ascending, each with its author summary; and each post carries its author summary, its
  like records (the user identifiers of the likes of that post) and the count of these
  likes.
\<close>

theorem getPosts_ordered:
  assumes "fault e PostFindMany = None"
  shows
    "\<exists>feed. getPosts e w = (Return feed, w) \<and>
       sorted_wrt (\<ge>) (map post_createdAt feed) \<and>
       mset (map post.truncate feed) = mset (posts (db w)) \<and>
       (\<forall>fp \<in> set feed.
          sorted (map comment_createdAt (post_comments fp)) \<and>
          mset (map comment.truncate (post_comments fp)) =
            mset (filter (\<lambda>c. comment_postId c = post_id fp) (comments (db w))) \<and>
          (\<forall>c \<in> set (post_comments fp).
             comment_author c = find (\<lambda>u. user_id u = comment_authorId c) (users (db w))) \<and>
          post_author fp = find (\<lambda>u. user_id u = post_authorId fp) (users (db w)) \<and>
          post_likes fp =
            map like_userId (filter (\<lambda>l. like_postId l = post_id fp) (likes (db w))) \<and>
          post_count_likes fp = length (post_likes fp))"
proof -
  let ?enrich = "\<lambda>p. \<lparr>post_id = post_id p, post_content = post_content p,
                      post_image = post_image p, post_createdAt = post_createdAt p,
                      post_authorId = post_authorId p,
                      post_author = include_author (db w) (post_authorId p),
                      post_comments = include_comments (db w) (post_id p),
                      post_likes = include_likes (db w) (post_id p),
                      post_count_likes = count_likes (db w) (post_id p)\<rparr>"
  let ?feed = "map ?enrich (sort_key (\<lambda>p. - post_createdAt p) (posts (db w)))"
  have run: "getPosts e w = (Return ?feed, w)"
    using assms
    by (simp add: getPosts_def getPosts_try_def prisma_post_findMany_def effect_defs)
  have order: "sorted_wrt (\<ge>) (map post_createdAt ?feed)"
    using sorted_desc_sort_key[of post_createdAt "posts (db w)"] by (simp add: o_def)
  have all: "mset (map post.truncate ?feed) = mset (posts (db w))"
    by (simp add: o_def post.truncate_def post_rebuild)
  have c_order: "sorted (map comment_createdAt (include_comments (db w) pid))" for pid
    using sorted_sort_key[of comment_createdAt]
    by (simp add: include_comments_def o_def)
  have c_all: "mset (map comment.truncate (include_comments (db w) pid)) =
      mset (filter (\<lambda>c. comment_postId c = pid) (comments (db w)))" for pid
    by (simp add: include_comments_def o_def comment.truncate_def comment_rebuild)
  have c_author: "\<forall>c \<in> set (include_comments (db w) pid).
      comment_author c = find (\<lambda>u. user_id u = comment_authorId c) (users (db w))" for pid
    by (auto simp: include_comments_def include_author_def)
  have each: "\<forall>fp \<in> set ?feed.
          sorted (map comment_createdAt (post_comments fp)) \<and>
          mset (map comment.truncate (post_comments fp)) =
            mset (filter (\<lambda>c. comment_postId c = post_id fp) (comments (db w))) \<and>
          (\<forall>c \<in> set (post_comments fp).
             comment_author c = find (\<lambda>u. user_id u = comment_authorId c) (users (db w))) \<and>
          post_author fp = find (\<lambda>u. user_id u = post_authorId fp) (users (db w)) \<and>
          post_likes fp =
            map like_userId (filter (\<lambda>l. like_postId l = post_id fp) (likes (db w))) \<and>
          post_count_likes fp = length (post_likes fp)"
    using c_order c_all c_author
    by (auto simp: include_author_def include_likes_def count_likes_def)
  from run order all each show ?thesis
    by blast
qed

text \<open>
  The theorem on the second example world: the later post comes first, the comments of
  the first post come out in date order though stored the other way round, and the one
  like is listed and counted.
\<close>

theorem getPosts_ordered_witness:
  "\<exists>feed. getPosts (session (Return None)) feed_world = (Return feed, feed_world) \<and>
     map post_id feed = [''p3'', ''p1''] \<and>
     map post_createdAt feed = [300, 100] \<and>
     sorted_wrt (\<ge>) (map post_createdAt feed) \<and>
     map (\<lambda>fp. map comment_id (post_comments fp)) feed = [[], [''c1'', ''c2'']] \<and>
     map (\<lambda>fp. map comment_createdAt (post_comments fp)) feed = [[], [150, 250]] \<and>
     map post_author feed = [Some bob, Some alice] \<and>
     map post_likes feed = [[], [''u2'']] \<and>
     map post_count_likes feed = [0, 1]"
proof -
  have "fault (session (Return None)) PostFindMany = None"
    by (simp add: session_def)
  from getPosts_ordered[OF this, of feed_world]
  obtain feed where run: "getPosts (session (Return None)) feed_world = (Return feed, feed_world)"
    and order: "sorted_wrt (\<ge>) (map post_createdAt feed)"
    by blast
  from run have feed: "feed =
       [\<lparr>post_id = ''p3'', post_content = ''again'', post_image = ''pic.png'',
         post_createdAt = 300, post_authorId = ''u2'', post_author = Some bob,
         post_comments = [], post_likes = [], post_count_likes = 0\<rparr>,
        \<lparr>post_id = ''p1'', post_content = ''hello'', post_image = [],
         post_createdAt = 100, post_authorId = ''u1'', post_author = Some alice,
         post_comments =
           [\<lparr>comment_id = ''c1'', comment_content = ''first'', comment_authorId = ''u2'',
             comment_postId = ''p1'', comment_createdAt = 150, comment_author = Some bob\<rparr>,
            \<lparr>comment_id = ''c2'', comment_content = ''second'', comment_authorId = ''u1'',
             comment_postId = ''p1'', comment_createdAt = 250,
             comment_author = Some alice\<rparr>],
         post_likes = [''u2''], post_count_likes = 1\<rparr>]"
    by (simp add: run_feed)
  show ?thesis
    by (rule exI[of _ feed], intro conjI, rule run, insert order) (simp_all add: feed)
qed

end
